theory Spec2Isabelle
  imports Complex_Main "HOL-Library.Log_Nat" "HOL-Library.Code_Target_Nat"
begin

section \<open>Strings and numbers of the host language\<close>

text \<open>
  The handler of \<^verbatim>\<open>POST /api/admin/purchase-templates/test\<close> in
  \<^verbatim>\<open>src/functions/src/index.ts\<close> works on ECMAScript strings and numbers. A string is a
  sequence of UTF-16 code units; a code unit is modelled by its numeric value, so that
  the rupee sign U+20B9 of the receipts is one element, as it is for the program.
\<close>

type_synonym jsstring = "nat list"

definition ascii :: "string \<Rightarrow> jsstring" where
  "ascii s = map of_char s"

text \<open>White space and line terminators, as \<^verbatim>\<open>String.prototype.trim\<close>, the string to
  number conversion and the pattern escape \<^verbatim>\<open>\s\<close> understand them.\<close>

definition is_line_terminator :: "nat \<Rightarrow> bool" where
  "is_line_terminator c = (c = 10 \<or> c = 13 \<or> c = 8232 \<or> c = 8233)"

definition is_white_space :: "nat \<Rightarrow> bool" where
  "is_white_space c =
     (c = 9 \<or> c = 11 \<or> c = 12 \<or> c = 32 \<or> c = 160 \<or> c = 5760 \<or> (8192 \<le> c \<and> c \<le> 8202)
      \<or> c = 8239 \<or> c = 8287 \<or> c = 12288 \<or> c = 65279 \<or> is_line_terminator c)"

definition trim :: "jsstring \<Rightarrow> jsstring" where
  "trim s = rev (dropWhile is_white_space (rev (dropWhile is_white_space s)))"

definition is_digit :: "nat \<Rightarrow> bool" where
  "is_digit c = (48 \<le> c \<and> c \<le> 57)"

text \<open>
  A number is a binary64 value: not-a-number, an infinity, or a finite value, which is
  kept as the rational it denotes. The two zeros are not told apart: the handler only
  tests a zero for truthiness, and both zeros are falsy.
\<close>

datatype jsnum = NaN | Fin rat | PosInf | NegInf

definition pow2 :: "int \<Rightarrow> int" where
  "pow2 k = 2 ^ nat k"

definition round_div :: "int \<Rightarrow> int \<Rightarrow> int" where
  \<comment> \<open>the integer nearest to \<open>x / y\<close>, a tie going to the even one\<close>
  "round_div x y =
     (let f = x div y; r = x mod y
      in if 2 * r < y then f else if y < 2 * r then f + 1 else if even f then f else f + 1)"

definition ilog2 :: "int \<Rightarrow> int \<Rightarrow> int" where
  \<comment> \<open>\<open>\<lfloor>log\<^sub>2 (a / b)\<rfloor>\<close> for positive \<open>a\<close> and \<open>b\<close>\<close>
  "ilog2 a b =
     (let d = bitlen a - bitlen b
      in if (if 0 \<le> d then b * pow2 d \<le> a else b \<le> a * pow2 (- d)) then d else d - 1)"

definition to_double :: "int \<Rightarrow> int \<Rightarrow> jsnum" where
  \<comment> \<open>the binary64 value nearest to \<open>a / b\<close> (\<open>0 \<le> a\<close>, \<open>0 < b\<close>): 53 significant bits,
      exponents from -1022 (below it the spacing stays \<open>2\<^sup>-\<^sup>1\<^sup>0\<^sup>7\<^sup>4\<close>), ties to even,
      and infinity from \<open>2\<^sup>1\<^sup>0\<^sup>2\<^sup>4 - 2\<^sup>9\<^sup>7\<^sup>0\<close> on\<close>
  "to_double a b =
     (if a = 0 then Fin 0
      else
        let e = max (ilog2 a b) (- 1022); s = e - 52;
            n = (if 0 \<le> s then round_div a (b * pow2 s) else round_div (a * pow2 (- s)) b)
        in if 1023 < e \<or> (e = 1023 \<and> n = pow2 53) then PosInf
           else if 0 \<le> s then Fin (of_int (n * pow2 s))
           else Fin (Fract n (pow2 (- s))))"

fun neg :: "jsnum \<Rightarrow> jsnum" where
  "neg NaN = NaN"
| "neg (Fin q) = Fin (- q)"
| "neg PosInf = NegInf"
| "neg NegInf = PosInf"

subsection \<open>\<^verbatim>\<open>Number(string)\<close>\<close>

text \<open>
  The conversion of a string to a number: white space is trimmed, the empty string is
  0, and the rest must be a numeric literal as a whole: a binary, octal or hexadecimal
  integer, or an optionally signed decimal literal (\<^verbatim>\<open>Infinity\<close>, or digits with an
  optional fraction and exponent). Anything else is not-a-number.
\<close>

definition digit_of :: "nat \<Rightarrow> nat" where
  "digit_of c =
     (if is_digit c then c - 48
      else if 97 \<le> c \<and> c \<le> 102 then c - 87
      else if 65 \<le> c \<and> c \<le> 70 then c - 55
      else 16)"

definition radix_value :: "nat \<Rightarrow> jsstring \<Rightarrow> nat" where
  "radix_value b s = foldl (\<lambda>a c. b * a + digit_of c) 0 s"

definition radix_literal :: "nat \<Rightarrow> jsstring \<Rightarrow> jsnum" where
  "radix_literal b s =
     (if s \<noteq> [] \<and> list_all (\<lambda>c. digit_of c < b) s
      then to_double (int (radix_value b s)) 1 else NaN)"

definition exponent_part :: "jsstring \<Rightarrow> int option" where
  \<comment> \<open>what follows the digits of a decimal literal: nothing, or \<^verbatim>\<open>e\<close>, a sign, digits\<close>
  "exponent_part s =
     (case s of
        [] \<Rightarrow> Some 0
      | c # r \<Rightarrow>
          if c = 101 \<or> c = 69 then
            (let sg = (if r \<noteq> [] \<and> hd r = 45 then - 1 else 1);
                 ds = (if r \<noteq> [] \<and> (hd r = 45 \<or> hd r = 43) then tl r else r)
             in if ds \<noteq> [] \<and> list_all is_digit ds
                then Some (sg * int (radix_value 10 ds)) else None)
          else None)"

definition unsigned_decimal :: "jsstring \<Rightarrow> jsnum" where
  "unsigned_decimal s =
     (if s = ascii ''Infinity'' then PosInf
      else
        let ip = takeWhile is_digit s; r1 = dropWhile is_digit s;
            dot = (r1 \<noteq> [] \<and> hd r1 = 46);
            fp = (if dot then takeWhile is_digit (tl r1) else []);
            r2 = (if dot then dropWhile is_digit (tl r1) else r1)
        in if ip = [] \<and> fp = [] then NaN
           else
             (case exponent_part r2 of
                None \<Rightarrow> NaN
              | Some ex \<Rightarrow>
                  let m = int (radix_value 10 (ip @ fp)); k = ex - int (length fp)
                  in if 0 \<le> k then to_double (m * 10 ^ nat k) 1
                     else to_double m (10 ^ nat (- k))))"

definition Number :: "jsstring \<Rightarrow> jsnum" where
  "Number s =
     (let t = trim s
      in if t = [] then Fin 0
         else if take 2 t = ascii ''0x'' \<or> take 2 t = ascii ''0X'' then radix_literal 16 (drop 2 t)
         else if take 2 t = ascii ''0o'' \<or> take 2 t = ascii ''0O'' then radix_literal 8 (drop 2 t)
         else if take 2 t = ascii ''0b'' \<or> take 2 t = ascii ''0B'' then radix_literal 2 (drop 2 t)
         else if hd t = 45 then neg (unsigned_decimal (tl t))
         else if hd t = 43 then unsigned_decimal (tl t)
         else unsigned_decimal t)"

subsection \<open>Truthiness and the \<^verbatim>\<open>||\<close> idioms of the handler\<close>

text \<open>A value read from a match is a string or \<^verbatim>\<open>undefined\<close> (\<open>None\<close>);
  \<^verbatim>\<open>undefined\<close> and the empty string are falsy. A number is falsy when it is zero
  or not-a-number.\<close>

definition truthy :: "jsstring option \<Rightarrow> bool" where
  "truthy v = (case v of None \<Rightarrow> False | Some s \<Rightarrow> s \<noteq> [])"

definition or_str :: "jsstring option \<Rightarrow> jsstring \<Rightarrow> jsstring" where
  \<comment> \<open>\<^verbatim>\<open>v || d\<close> with a string default\<close>
  "or_str v d = (case v of None \<Rightarrow> d | Some s \<Rightarrow> if s \<noteq> [] then s else d)"

definition or_else :: "jsstring option \<Rightarrow> jsstring option \<Rightarrow> jsstring option" where
  \<comment> \<open>\<^verbatim>\<open>v || w\<close> between two values read from a match\<close>
  "or_else v w = (if truthy v then v else w)"

definition truthy_num :: "jsnum \<Rightarrow> bool" where
  "truthy_num n = (n \<noteq> NaN \<and> n \<noteq> Fin 0)"

definition or_null :: "jsnum \<Rightarrow> jsnum option" where
  \<comment> \<open>\<^verbatim>\<open>n || null\<close>\<close>
  "or_null n = (if truthy_num n then Some n else None)"

definition or_zero :: "jsnum \<Rightarrow> jsnum" where
  \<comment> \<open>\<^verbatim>\<open>n || 0\<close>\<close>
  "or_zero n = (if truthy_num n then n else Fin 0)"

definition Number_or0 :: "jsstring option \<Rightarrow> jsnum" where
  \<comment> \<open>\<^verbatim>\<open>Number(v || 0)\<close>: the number 0 converts to itself\<close>
  "Number_or0 v = (if truthy v then Number (the v) else Fin 0)"

definition strip_number :: "jsstring \<Rightarrow> jsstring" where
  \<comment> \<open>\<^verbatim>\<open>.replace(/[^0-9\.\,]/g, '').replace(/,/g, '')\<close>\<close>
  "strip_number s =
     filter (\<lambda>c. c \<noteq> 44) (filter (\<lambda>c. is_digit c \<or> c = 46 \<or> c = 44) s)"


section \<open>Regular expressions of the host language\<close>

text \<open>
  The handler compiles each pattern with \<^verbatim>\<open>new RegExp(src, flags)\<close> and applies it with
  \<^verbatim>\<open>text.match(re)\<close> or \<^verbatim>\<open>text.matchAll(re)\<close>. What a match exposes to the handler is
  the matched text \<^verbatim>\<open>m[0]\<close>, the capture groups \<^verbatim>\<open>m[1]\<close>, \<^verbatim>\<open>m[2]\<close>, ... (a group that
  did not take part is \<^verbatim>\<open>undefined\<close>) and \<^verbatim>\<open>m.groups\<close>, which is \<^verbatim>\<open>undefined\<close> when
  the pattern has no named group and otherwise maps every group name to its capture.
\<close>

record rmatch =
  whole :: jsstring
  captures :: "jsstring option list"
  groups :: "(jsstring \<times> jsstring option) list option"

definition grp :: "rmatch \<Rightarrow> nat \<Rightarrow> jsstring option" where
  \<comment> \<open>\<^verbatim>\<open>m[i]\<close>; reading past the last group gives \<^verbatim>\<open>undefined\<close>\<close>
  "grp m i =
     (if i = 0 then Some (whole m)
      else if i \<le> length (captures m) then captures m ! (i - 1)
      else None)"

definition named :: "rmatch \<Rightarrow> string \<Rightarrow> jsstring option" where
  \<comment> \<open>\<^verbatim>\<open>(m.groups || {}).key\<close>\<close>
  "named m key =
     (case groups m of
        None \<Rightarrow> None
      | Some g \<Rightarrow> (case map_of g (ascii key) of None \<Rightarrow> None | Some v \<Rightarrow> v))"

text \<open>
  The three library entry points. The constructor raises \<^verbatim>\<open>SyntaxError\<close> on a pattern
  that does not compile, which is the result \<open>None\<close>. The handler applies \<^verbatim>\<open>match\<close>
  only to patterns built without the flag \<^verbatim>\<open>g\<close> (the first match or \<^verbatim>\<open>null\<close>) and
  \<^verbatim>\<open>matchAll\<close> only to a pattern built with it (every match, from left to right), and
  on such arguments neither raises.
\<close>

record 're regexp_library =
  RegExp_new :: "jsstring \<Rightarrow> jsstring \<Rightarrow> 're option"
  String_match :: "jsstring \<Rightarrow> 're \<Rightarrow> rmatch option"
  String_matchAll :: "jsstring \<Rightarrow> 're \<Rightarrow> rmatch list"

subsection \<open>Syntax of a fragment of the pattern language\<close>

text \<open>
  To run the handler on concrete templates, the pattern language is modelled for the
  fragment below, without the flag \<^verbatim>\<open>u\<close>: literal characters, \<^verbatim>\<open>.\<close>, the escapes
  \<^verbatim>\<open>\d \D \s \S \w \W \t \n \v \f \r\<close> and escaped punctuation, character classes with
  ranges and negation, the assertions \<^verbatim>\<open>^\<close> and \<^verbatim>\<open>$\<close>, capturing, named and
  non-capturing groups, alternation, and the quantifiers \<^verbatim>\<open>* + ?\<close>, greedy or lazy.
  A pattern with anything else (a braced quantifier, a back reference, a look-around,
  \<^verbatim>\<open>\b\<close>, the other letter escapes, modifiers, a group name used twice) is reported
  as \<open>Unsupported\<close>, not as an error of the pattern. Letter case is folded for ASCII letters; the other code units are compared
  as they are, which is what the language does for a code unit without an upper-case
  form, the rupee sign among them.
\<close>

datatype esc = Digit | Space | Word

datatype cset = CChar nat | CRange nat nat | CEsc bool esc

datatype node =
    Empty
  | Atom bool "cset list"
  | Dot
  | Bol
  | Eol
  | Group "nat option" node
  | Seq node node
  | Alt node node
  | Repeat nat "nat option" bool node

datatype 'a pres = Parsed 'a | SyntaxError | Unsupported

datatype paren = Capturing | Named jsstring | NonCapturing

datatype token =
    TAtom node
  | TAssert node
  | TOpen paren
  | TClose
  | TBar
  | TQuant nat "nat option" bool

definition is_alnum :: "nat \<Rightarrow> bool" where
  "is_alnum c = (is_digit c \<or> (65 \<le> c \<and> c \<le> 90) \<or> (97 \<le> c \<and> c \<le> 122))"

definition is_word_char :: "nat \<Rightarrow> bool" where
  "is_word_char c = (is_alnum c \<or> c = 95)"

definition class_escape :: "nat \<Rightarrow> cset pres" where
  \<comment> \<open>the character or set an escaped \<open>c\<close> stands for, where a class and an atom agree\<close>
  "class_escape c =
     (if c = 100 then Parsed (CEsc True Digit) else if c = 68 then Parsed (CEsc False Digit)
      else if c = 115 then Parsed (CEsc True Space) else if c = 83 then Parsed (CEsc False Space)
      else if c = 119 then Parsed (CEsc True Word) else if c = 87 then Parsed (CEsc False Word)
      else if c = 116 then Parsed (CChar 9) else if c = 110 then Parsed (CChar 10)
      else if c = 118 then Parsed (CChar 11) else if c = 102 then Parsed (CChar 12)
      else if c = 114 then Parsed (CChar 13)
      else if is_alnum c then Unsupported
      else Parsed (CChar c))"

datatype catom = AItem cset | ADash

fun class_atoms :: "jsstring \<Rightarrow> catom list pres" where
  "class_atoms [] = Parsed []"
| "class_atoms (c # cs) =
     (if c = 92 then
        (case cs of
           [] \<Rightarrow> SyntaxError
         | d # ds \<Rightarrow>
             (case (if d = 98 then Parsed (CChar 8) else class_escape d) of
                Parsed a \<Rightarrow>
                  (case class_atoms ds of Parsed r \<Rightarrow> Parsed (AItem a # r)
                   | SyntaxError \<Rightarrow> SyntaxError | Unsupported \<Rightarrow> Unsupported)
              | SyntaxError \<Rightarrow> SyntaxError
              | Unsupported \<Rightarrow> Unsupported))
      else
        (case class_atoms cs of
           Parsed r \<Rightarrow> Parsed ((if c = 45 then ADash else AItem (CChar c)) # r)
         | SyntaxError \<Rightarrow> SyntaxError
         | Unsupported \<Rightarrow> Unsupported))"

definition item :: "catom \<Rightarrow> cset" where
  "item a = (case a of ADash \<Rightarrow> CChar 45 | AItem x \<Rightarrow> x)"

fun class_ranges :: "catom list \<Rightarrow> cset list pres" where
  "class_ranges (x # ADash # y # r) =
     (case class_ranges r of
        Parsed rs \<Rightarrow>
          (case (item x, item y) of
             (CChar a, CChar b) \<Rightarrow> if a \<le> b then Parsed (CRange a b # rs) else SyntaxError
           | _ \<Rightarrow> Parsed (item x # CChar 45 # item y # rs))
      | SyntaxError \<Rightarrow> SyntaxError
      | Unsupported \<Rightarrow> Unsupported)"
| "class_ranges (x # r) =
     (case class_ranges r of
        Parsed rs \<Rightarrow> Parsed (item x # rs)
      | SyntaxError \<Rightarrow> SyntaxError
      | Unsupported \<Rightarrow> Unsupported)"
| "class_ranges [] = Parsed []"

fun class_end :: "jsstring \<Rightarrow> nat option" where
  \<comment> \<open>how many code units stand before the \<^verbatim>\<open>]\<close> that closes a class\<close>
  "class_end [] = None"
| "class_end (c # cs) =
     (if c = 93 then Some 0
      else if c = 92 then
        (case cs of [] \<Rightarrow> None | d # ds \<Rightarrow> map_option (\<lambda>k. k + 2) (class_end ds))
      else map_option Suc (class_end cs))"

definition char_class :: "jsstring \<Rightarrow> node pres" where
  \<comment> \<open>the class whose text between the brackets is \<open>body\<close>\<close>
  "char_class body =
     (let ivt = (body \<noteq> [] \<and> hd body = 94)
      in case class_atoms (if ivt then tl body else body) of
           Parsed as \<Rightarrow>
             (case class_ranges as of
                Parsed rs \<Rightarrow> Parsed (Atom ivt rs)
              | SyntaxError \<Rightarrow> SyntaxError
              | Unsupported \<Rightarrow> Unsupported)
         | SyntaxError \<Rightarrow> SyntaxError
         | Unsupported \<Rightarrow> Unsupported)"

definition group_name_ok :: "jsstring \<Rightarrow> bool" where
  \<comment> \<open>an identifier of ASCII letters, digits, \<^verbatim>\<open>_\<close> and \<^verbatim>\<open>$\<close>\<close>
  "group_name_ok nm =
     (list_all (\<lambda>c. is_word_char c \<or> c = 36) nm \<and> nm \<noteq> [] \<and> \<not> is_digit (hd nm))"

definition push :: "token \<Rightarrow> token list pres \<Rightarrow> token list pres" where
  "push t r =
     (case r of Parsed ts \<Rightarrow> Parsed (t # ts) | SyntaxError \<Rightarrow> SyntaxError
      | Unsupported \<Rightarrow> Unsupported)"

function tokens :: "jsstring \<Rightarrow> token list pres" where
  "tokens [] = Parsed []"
| "tokens (c # cs) =
     (if c = 92 then
        (case cs of
           [] \<Rightarrow> SyntaxError
         | d # ds \<Rightarrow>
             (case (if d = 98 \<or> d = 66 then Unsupported else class_escape d) of
                Parsed a \<Rightarrow> push (TAtom (Atom False [a])) (tokens ds)
              | SyntaxError \<Rightarrow> SyntaxError
              | Unsupported \<Rightarrow> Unsupported))
      else if c = 91 then
        (case class_end cs of
           None \<Rightarrow> SyntaxError
         | Some k \<Rightarrow>
             (case char_class (take k cs) of
                Parsed a \<Rightarrow> push (TAtom a) (tokens (drop (Suc k) cs))
              | SyntaxError \<Rightarrow> SyntaxError
              | Unsupported \<Rightarrow> Unsupported))
      else if c = 40 then
        (if take 2 cs = [63, 58] then push (TOpen NonCapturing) (tokens (drop 2 cs))
         else if take 2 cs = [63, 60] then
           (let nm = takeWhile (\<lambda>x. x \<noteq> 62) (drop 2 cs)
            in if take 1 (drop 2 cs) = [61] \<or> take 1 (drop 2 cs) = [33] then Unsupported
               else if length cs < length nm + 3 \<or> nm = [] then SyntaxError
               else if list_ex (\<lambda>x. 128 \<le> x \<or> x = 92) nm then Unsupported
               else if \<not> group_name_ok nm then SyntaxError
               else push (TOpen (Named nm)) (tokens (drop (length nm + 3) cs)))
         else if take 2 cs = [63, 61] \<or> take 2 cs = [63, 33] then Unsupported
         else if take 1 cs = [63] then
           (if take 1 (drop 1 cs) = [105] \<or> take 1 (drop 1 cs) = [109]
               \<or> take 1 (drop 1 cs) = [115] \<or> take 1 (drop 1 cs) = [45]
            then Unsupported else SyntaxError)
         else push (TOpen Capturing) (tokens cs))
      else if c = 41 then push TClose (tokens cs)
      else if c = 124 then push TBar (tokens cs)
      else if c = 46 then push (TAtom Dot) (tokens cs)
      else if c = 94 then push (TAssert Bol) (tokens cs)
      else if c = 36 then push (TAssert Eol) (tokens cs)
      else if c = 42 \<or> c = 43 \<or> c = 63 then
        (let lazy = (take 1 cs = [63]);
             mn = (if c = 43 then 1 else 0);
             mx = (if c = 63 then Some 1 else None)
         in push (TQuant mn mx (\<not> lazy)) (tokens (if lazy then drop 1 cs else cs)))
      else if c = 123 then Unsupported
      else push (TAtom (Atom False [CChar c])) (tokens cs))"
  by pat_completeness auto
termination
  by (relation "measure length") auto


definition pbind :: "'a pres \<Rightarrow> ('a \<Rightarrow> 'b pres) \<Rightarrow> 'b pres" where
  "pbind r f =
     (case r of Parsed x \<Rightarrow> f x | SyntaxError \<Rightarrow> SyntaxError | Unsupported \<Rightarrow> Unsupported)"

text \<open>
  The token list is read from left to right with a stack of open groups. A frame holds
  the capture index of its group, the alternatives closed so far and the terms of the
  current alternative (both latest first), and whether the latest term can take a
  quantifier. Capture indices count the opening parentheses from 0, so that group
  \<open>i\<close> is what a match exposes as \<^verbatim>\<open>m[i + 1]\<close>.
\<close>

type_synonym frame = "nat option \<times> node list \<times> node list \<times> bool"

definition close_alts :: "node list \<Rightarrow> node list \<Rightarrow> node" where
  "close_alts alts cur = fold Alt alts (fold Seq cur Empty)"

fun parse ::
  "token list \<Rightarrow> frame \<Rightarrow> frame list \<Rightarrow> nat \<Rightarrow> (jsstring \<times> nat) list
     \<Rightarrow> (node \<times> nat \<times> (jsstring \<times> nat) list) pres" where
  "parse [] (k, alts, cur, q) st n nm =
     (if st = [] then Parsed (close_alts alts cur, n, nm) else SyntaxError)"
| "parse (TAtom a # ts) (k, alts, cur, q) st n nm = parse ts (k, alts, a # cur, True) st n nm"
| "parse (TAssert a # ts) (k, alts, cur, q) st n nm = parse ts (k, alts, a # cur, False) st n nm"
| "parse (TQuant mn mx g # ts) (k, alts, cur, q) st n nm =
     (case cur of
        [] \<Rightarrow> SyntaxError
      | t # cur' \<Rightarrow>
          if q then parse ts (k, alts, Repeat mn mx g t # cur', False) st n nm
          else SyntaxError)"
| "parse (TBar # ts) (k, alts, cur, q) st n nm =
     parse ts (k, fold Seq cur Empty # alts, [], False) st n nm"
| "parse (TOpen p # ts) f st n nm =
     (case p of
        NonCapturing \<Rightarrow> parse ts (None, [], [], False) (f # st) n nm
      | Capturing \<Rightarrow> parse ts (Some n, [], [], False) (f # st) (Suc n) nm
      | Named x \<Rightarrow>
          if map_of nm x = None
          then parse ts (Some n, [], [], False) (f # st) (Suc n) (nm @ [(x, n)])
          else Unsupported)"
| "parse (TClose # ts) (k, alts, cur, q) st n nm =
     (case st of
        [] \<Rightarrow> SyntaxError
      | (k', alts', cur', q') # st' \<Rightarrow>
          parse ts (k', alts', Group k (close_alts alts cur) # cur', True) st' n nm)"

record regexp =
  pattern :: node
  ngroups :: nat
  names :: "(jsstring \<times> nat) list"
  global :: bool
  ignoreCase :: bool
  multiline :: bool
  dotAll :: bool

definition es_flags :: "jsstring \<Rightarrow> (bool \<times> bool \<times> bool \<times> bool) pres" where
  \<comment> \<open>the flags \<^verbatim>\<open>g i m s\<close>; a repeated or unknown letter is an error of the flags\<close>
  "es_flags fl =
     (if \<not> distinct fl \<or> \<not> list_all (\<lambda>c. c \<in> set (ascii ''dgimsuvy'')) fl
         \<or> (117 \<in> set fl \<and> 118 \<in> set fl)
      then SyntaxError
      else if list_ex (\<lambda>c. c \<in> set (ascii ''duvy'')) fl then Unsupported
      else Parsed (103 \<in> set fl, 105 \<in> set fl, 109 \<in> set fl, 115 \<in> set fl))"

definition es_compile :: "jsstring \<Rightarrow> jsstring \<Rightarrow> regexp pres" where
  "es_compile src fl =
     pbind (es_flags fl) (\<lambda>(g, i, m, s).
     pbind (tokens src) (\<lambda>ts.
     pbind (parse ts (None, [], [], False) [] 0 []) (\<lambda>(nd, n, nm).
       Parsed \<lparr>pattern = nd, ngroups = n, names = nm, global = g, ignoreCase = i,
               multiline = m, dotAll = s\<rparr>)))"

subsection \<open>Matching\<close>

text \<open>
  Matching follows the backtracking semantics of the language. A state is the input
  still to read, the code unit before it, and the captures; a pattern maps a state to
  the states it can end in, in the order in which backtracking tries them, so the head
  of the list is the match the language reports.
\<close>

datatype mstate = MState (rest: jsstring) (prev: "nat option") (caps: "jsstring option list")

definition variants :: "nat \<Rightarrow> nat list" where
  \<comment> \<open>the code units that fold to the same letter as \<open>c\<close>\<close>
  "variants c =
     (if 65 \<le> c \<and> c \<le> 90 then [c, c + 32]
      else if 97 \<le> c \<and> c \<le> 122 then [c, c - 32]
      else [c])"

fun in_cset :: "cset \<Rightarrow> nat \<Rightarrow> bool" where
  "in_cset (CChar a) c = (c = a)"
| "in_cset (CRange a b) c = (a \<le> c \<and> c \<le> b)"
| "in_cset (CEsc pos e) c =
     (pos = (case e of Digit \<Rightarrow> is_digit c | Space \<Rightarrow> is_white_space c
             | Word \<Rightarrow> is_word_char c))"

definition atom_ok :: "bool \<Rightarrow> bool \<Rightarrow> cset list \<Rightarrow> nat \<Rightarrow> bool" where
  "atom_ok ic ivt items c =
     (ivt \<noteq> list_ex (\<lambda>v. list_ex (\<lambda>i. in_cset i v) items) (if ic then variants c else [c]))"

fun group_ids :: "node \<Rightarrow> nat list" where
  "group_ids (Group k r) = (case k of None \<Rightarrow> [] | Some i \<Rightarrow> [i]) @ group_ids r"
| "group_ids (Seq a b) = group_ids a @ group_ids b"
| "group_ids (Alt a b) = group_ids a @ group_ids b"
| "group_ids (Repeat mn mx g r) = group_ids r"
| "group_ids _ = []"

definition reset :: "nat list \<Rightarrow> mstate \<Rightarrow> mstate" where
  "reset ids x = MState (rest x) (prev x) (fold (\<lambda>i cs. cs[i := None]) ids (caps x))"

text \<open>
  A quantified term: each round starts with the captures of the term cleared; once the
  minimum is reached a round that reads nothing is dropped; a greedy quantifier tries
  another round before stopping, a lazy one after. Every round lowers the minimum or
  reads a code unit, so \<open>mn + length (rest x) + 1\<close> bounds the depth.
\<close>

fun rep ::
  "nat \<Rightarrow> (mstate \<Rightarrow> mstate list) \<Rightarrow> nat list \<Rightarrow> nat \<Rightarrow> nat option \<Rightarrow> bool \<Rightarrow> mstate
     \<Rightarrow> mstate list" where
  "rep 0 step ids mn mx greedy x = []"
| "rep (Suc fuel) step ids mn mx greedy x =
     (if mx = Some 0 then [x]
      else
        let more =
          concat (map (\<lambda>y. if mn = 0 \<and> length (rest y) = length (rest x) then []
                            else rep fuel step ids (mn - 1) (map_option (\<lambda>k. k - 1) mx) greedy y)
                      (step (reset ids x)))
        in if mn \<noteq> 0 then more else if greedy then more @ [x] else x # more)"

fun run :: "bool \<Rightarrow> bool \<Rightarrow> bool \<Rightarrow> node \<Rightarrow> mstate \<Rightarrow> mstate list" where
  "run ic ml da Empty x = [x]"
| "run ic ml da (Atom ivt items) x =
     (case rest x of
        [] \<Rightarrow> []
      | c # cs \<Rightarrow> if atom_ok ic ivt items c then [MState cs (Some c) (caps x)] else [])"
| "run ic ml da Dot x =
     (case rest x of
        [] \<Rightarrow> []
      | c # cs \<Rightarrow> if da \<or> \<not> is_line_terminator c then [MState cs (Some c) (caps x)] else [])"
| "run ic ml da Bol x =
     (case prev x of None \<Rightarrow> [x] | Some p \<Rightarrow> if ml \<and> is_line_terminator p then [x] else [])"
| "run ic ml da Eol x =
     (case rest x of [] \<Rightarrow> [x] | c # cs \<Rightarrow> if ml \<and> is_line_terminator c then [x] else [])"
| "run ic ml da (Group k r) x =
     (case k of
        None \<Rightarrow> run ic ml da r x
      | Some i \<Rightarrow>
          map (\<lambda>y. MState (rest y) (prev y)
                     ((caps y)[i := Some (take (length (rest x) - length (rest y)) (rest x))]))
              (run ic ml da r x))"
| "run ic ml da (Seq a b) x = concat (map (run ic ml da b) (run ic ml da a x))"
| "run ic ml da (Alt a b) x = run ic ml da a x @ run ic ml da b x"
| "run ic ml da (Repeat mn mx g r) x =
     rep (mn + length (rest x) + 1) (run ic ml da r) (group_ids r) mn mx g x"

definition match_here :: "regexp \<Rightarrow> nat option \<Rightarrow> jsstring \<Rightarrow> mstate option" where
  \<comment> \<open>the match that starts at this position, if there is one\<close>
  "match_here re p s =
     (case run (ignoreCase re) (multiline re) (dotAll re) (pattern re)
             (MState s p (replicate (ngroups re) None)) of
        [] \<Rightarrow> None
      | y # ys \<Rightarrow> Some y)"

fun search :: "regexp \<Rightarrow> nat option \<Rightarrow> jsstring \<Rightarrow> (jsstring \<times> mstate) option" where
  \<comment> \<open>the leftmost match from this position on, with the input at its start\<close>
  "search re p [] = (case match_here re p [] of None \<Rightarrow> None | Some y \<Rightarrow> Some ([], y))"
| "search re p (c # cs) =
     (case match_here re p (c # cs) of
        None \<Rightarrow> search re (Some c) cs
      | Some y \<Rightarrow> Some (c # cs, y))"

definition result :: "regexp \<Rightarrow> jsstring \<Rightarrow> mstate \<Rightarrow> rmatch" where
  "result re s y =
     \<lparr>whole = take (length s - length (rest y)) s,
      captures = caps y,
      groups = (if names re = [] then None
                else Some (map (\<lambda>(nm, i). (nm, caps y ! i)) (names re)))\<rparr>"

fun all_from :: "nat \<Rightarrow> regexp \<Rightarrow> nat option \<Rightarrow> jsstring \<Rightarrow> rmatch list" where
  \<comment> \<open>the loop of \<^verbatim>\<open>matchAll\<close>: after an empty match the search moves on by one code unit\<close>
  "all_from 0 re p s = []"
| "all_from (Suc fuel) re p s =
     (case search re p s of
        None \<Rightarrow> []
      | Some (s0, y) \<Rightarrow>
          result re s0 y #
          (if length (rest y) = length s0
           then (case s0 of [] \<Rightarrow> [] | c # cs \<Rightarrow> all_from fuel re (Some c) cs)
           else all_from fuel re (prev y) (rest y)))"

definition es_matchAll :: "jsstring \<Rightarrow> regexp \<Rightarrow> rmatch list" where
  \<comment> \<open>every match of a pattern with the flag \<^verbatim>\<open>g\<close>, from left to right\<close>
  "es_matchAll text re = all_from (length text + 2) re None text"

definition es_match :: "jsstring \<Rightarrow> regexp \<Rightarrow> rmatch option" where
  \<comment> \<open>without the flag \<^verbatim>\<open>g\<close> the first match; with it the array of all matched texts\<close>
  "es_match text re =
     (if global re then
        (case es_matchAll text re of
           [] \<Rightarrow> None
         | r # rs \<Rightarrow> Some \<lparr>whole = whole r, captures = map (\<lambda>x. Some (whole x)) rs, groups = None\<rparr>)
      else
        (case search re None text of None \<Rightarrow> None | Some (s0, y) \<Rightarrow> Some (result re s0 y)))"

definition es_library :: "regexp regexp_library" where
  "es_library =
     \<lparr>RegExp_new = (\<lambda>src fl. case es_compile src fl of Parsed re \<Rightarrow> Some re | _ \<Rightarrow> None),
      String_match = es_match,
      String_matchAll = es_matchAll\<rparr>"


section \<open>The template test handler\<close>

text \<open>
  Lines 131 to 201 of \<^verbatim>\<open>src/functions/src/index.ts\<close>. The request body carries the
  sample \<^verbatim>\<open>text\<close> and a \<^verbatim>\<open>template\<close> of five optional pattern strings (section 6 of
  the specification types them as strings, and a property is a string or is missing
  here). Without a \<^verbatim>\<open>template\<close> property the body itself is read as the template, so
  the body has the five pattern properties of its own as well.

  The handler fills the object \<^verbatim>\<open>out\<close> field by field; each field is written at most
  once and no step reads another field, so the model builds the record in one
  expression. The outer \<^verbatim>\<open>try\<close> answers with status 500 when a step raises; with the
  body typed as above no step does (the \<^verbatim>\<open>SyntaxError\<close> of the constructor is caught
  inside \<^verbatim>\<open>build\<close>), so that answer is not a value of the handler. What is returned is
  the object handed to \<^verbatim>\<open>res.json\<close>, before it is serialized.
\<close>

record template =
  vendorRegex :: "jsstring option"
  dateRegex :: "jsstring option"
  totalRegex :: "jsstring option"
  subtotalRegex :: "jsstring option"
  itemsRegex :: "jsstring option"

record body =
  template :: "template option"
  body_text :: "jsstring option" \<comment> \<open>the property \<^verbatim>\<open>text\<close>\<close>
  own :: template

record line_item =
  productName :: jsstring
  qty :: jsnum
  unit :: jsstring
  price :: jsnum

record parsed =
  raw :: jsstring
  vendorName :: jsstring
  purchaseDate :: jsstring
  subtotal :: "jsnum option"
  total :: "jsnum option"
  items :: "line_item list"

datatype response =
    Json parsed \<comment> \<open>\<^verbatim>\<open>res.json({ parsed: out })\<close>\<close>
  | Error nat string \<comment> \<open>\<^verbatim>\<open>res.status(code).json({ error: message })\<close>\<close>

definition build :: "'re regexp_library \<Rightarrow> jsstring option \<Rightarrow> jsstring option \<Rightarrow> 're option" where
  \<comment> \<open>\<^verbatim>\<open>if (!src) return null; try { return new RegExp(src, flags || 'im'); }
      catch (e) { return null; }\<close>\<close>
  "build L src flags =
     (case src of
        None \<Rightarrow> None
      | Some s \<Rightarrow> if s = [] then None else RegExp_new L s (or_str flags (ascii ''im'')))"

definition vendor_of :: "rmatch option \<Rightarrow> jsstring" where
  \<comment> \<open>\<^verbatim>\<open>m && m[1] ? m[1].trim() : (m && m[0] ? m[0].trim() : '')\<close>\<close>
  "vendor_of m =
     (case m of
        None \<Rightarrow> []
      | Some r \<Rightarrow>
          if truthy (grp r 1) then trim (or_str (grp r 1) [])
          else if truthy (grp r 0) then trim (or_str (grp r 0) [])
          else [])"

definition date_of :: "rmatch option \<Rightarrow> jsstring" where
  \<comment> \<open>\<^verbatim>\<open>m ? m[0] : ''\<close>\<close>
  "date_of m = (case m of None \<Rightarrow> [] | Some r \<Rightarrow> whole r)"

definition amount_of :: "rmatch \<Rightarrow> jsnum option" where
  \<comment> \<open>\<^verbatim>\<open>num = (m[1] || m[0] || '').toString().replace(/[^0-9\.\,]/g, '').replace(/,/g, '');
      Number(num) || null\<close>\<close>
  "amount_of r = or_null (Number (strip_number (or_str (or_else (grp r 1) (grp r 0)) [])))"

definition elem :: "jsstring option list \<Rightarrow> nat \<Rightarrow> jsstring option" where
  \<comment> \<open>an array read \<^verbatim>\<open>cap[i]\<close>, \<^verbatim>\<open>undefined\<close> past the end\<close>
  "elem cap i = (if i < length cap then cap ! i else None)"

definition uses_named :: "rmatch \<Rightarrow> bool" where
  \<comment> \<open>\<^verbatim>\<open>g && (g.name || g.product || g.qty || g.price)\<close>\<close>
  "uses_named r =
     (truthy (named r ''name'') \<or> truthy (named r ''product'') \<or> truthy (named r ''qty'')
      \<or> truthy (named r ''price''))"

definition named_item :: "rmatch \<Rightarrow> line_item" where
  "named_item r =
     \<lparr>productName = trim (or_str (or_else (named r ''name'') (named r ''product'')) []),
      qty = or_zero (Number_or0 (or_else (named r ''qty'') (named r ''quantity''))),
      unit = or_str (named r ''unit'') [],
      price = or_zero (Number (strip_number (or_str (named r ''price'') [])))\<rparr>"

definition positional_item :: "rmatch \<Rightarrow> line_item" where
  \<comment> \<open>\<^verbatim>\<open>cap = Array.from(mm).slice(1).filter(v => typeof v !== 'undefined')\<close>\<close>
  "positional_item r =
     (let cap = filter (\<lambda>v. v \<noteq> None) (captures r)
      in \<lparr>productName = trim (or_str (elem cap 0) []),
          qty = or_zero (Number_or0 (elem cap 1)),
          unit = or_str (elem cap 2) [],
          price = or_zero (Number (strip_number (or_str (elem cap 3) [])))\<rparr>)"

definition item_of :: "rmatch \<Rightarrow> line_item" where
  \<comment> \<open>the body of the loop over the matches of the items pattern\<close>
  "item_of r = (if uses_named r then named_item r else positional_item r)"

definition tpl_of :: "body option \<Rightarrow> template" where
  \<comment> \<open>\<^verbatim>\<open>(req.body && req.body.template) ? req.body.template : req.body || {}\<close>\<close>
  "tpl_of b =
     (case b of
        None \<Rightarrow> \<lparr>vendorRegex = None, dateRegex = None, totalRegex = None,
                  subtotalRegex = None, itemsRegex = None\<rparr>
      | Some r \<Rightarrow> (case template r of None \<Rightarrow> own r | Some t \<Rightarrow> t))"

definition text_of :: "body option \<Rightarrow> jsstring" where
  \<comment> \<open>\<^verbatim>\<open>(req.body && req.body.text) ? String(req.body.text) : ''\<close>\<close>
  "text_of b = (case b of None \<Rightarrow> [] | Some r \<Rightarrow> or_str (body_text r) [])"

definition assemble :: "'re regexp_library \<Rightarrow> jsstring \<Rightarrow> template \<Rightarrow> parsed" where
  \<comment> \<open>the handler from the five \<^verbatim>\<open>build\<close> calls to the finished \<^verbatim>\<open>out\<close>\<close>
  "assemble L txt tpl =
     (let vendorRe = build L (vendorRegex tpl) (Some (ascii ''im''));
          dateRe = build L (dateRegex tpl) (Some (ascii ''im''));
          totalRe = build L (totalRegex tpl) (Some (ascii ''im''));
          subtotalRe = build L (subtotalRegex tpl) (Some (ascii ''im''));
          itemsRe = build L (itemsRegex tpl) (Some (ascii ''gim''))
      in \<lparr>raw = txt,
          vendorName = (case vendorRe of None \<Rightarrow> [] | Some re \<Rightarrow> vendor_of (String_match L txt re)),
          purchaseDate = (case dateRe of None \<Rightarrow> [] | Some re \<Rightarrow> date_of (String_match L txt re)),
          subtotal =
            (case subtotalRe of
               None \<Rightarrow> None
             | Some re \<Rightarrow> (case String_match L txt re of None \<Rightarrow> None | Some r \<Rightarrow> amount_of r)),
          total =
            (case totalRe of
               None \<Rightarrow> None
             | Some re \<Rightarrow> (case String_match L txt re of None \<Rightarrow> None | Some r \<Rightarrow> amount_of r)),
          items =
            (case itemsRe of None \<Rightarrow> [] | Some re \<Rightarrow> map item_of (String_matchAll L txt re))\<rparr>)"

definition test_template :: "'re regexp_library \<Rightarrow> body option \<Rightarrow> response" where
  "test_template L b =
     (if text_of b = [] then Error 400 ''text required to test template''
      else Json (assemble L (text_of b) (tpl_of b)))"

section \<open>Vocabulary of the properties\<close>

text \<open>The five pattern fields of a template, with the flags the handler compiles each
  with and the default the record holds for each.\<close>

datatype field = Vendor | Date | Total | Subtotal | Items

definition no_patterns :: template where
  "no_patterns =
     \<lparr>vendorRegex = None, dateRegex = None, totalRegex = None, subtotalRegex = None,
      itemsRegex = None\<rparr>"

definition pattern_of :: "template \<Rightarrow> field \<Rightarrow> jsstring option" where
  "pattern_of tpl f =
     (case f of Vendor \<Rightarrow> vendorRegex tpl | Date \<Rightarrow> dateRegex tpl | Total \<Rightarrow> totalRegex tpl
      | Subtotal \<Rightarrow> subtotalRegex tpl | Items \<Rightarrow> itemsRegex tpl)"

definition without :: "template \<Rightarrow> field \<Rightarrow> template" where
  "without tpl f =
     (case f of Vendor \<Rightarrow> tpl\<lparr>vendorRegex := None\<rparr> | Date \<Rightarrow> tpl\<lparr>dateRegex := None\<rparr>
      | Total \<Rightarrow> tpl\<lparr>totalRegex := None\<rparr> | Subtotal \<Rightarrow> tpl\<lparr>subtotalRegex := None\<rparr>
      | Items \<Rightarrow> tpl\<lparr>itemsRegex := None\<rparr>)"

definition flags_of :: "field \<Rightarrow> jsstring" where
  "flags_of f = (if f = Items then ascii ''gim'' else ascii ''im'')"

definition at_default :: "parsed \<Rightarrow> field \<Rightarrow> bool" where
  "at_default out f =
     (case f of Vendor \<Rightarrow> vendorName out = [] | Date \<Rightarrow> purchaseDate out = []
      | Total \<Rightarrow> total out = None | Subtotal \<Rightarrow> subtotal out = None
      | Items \<Rightarrow> items out = [])"

fun nonneg :: "jsnum \<Rightarrow> bool" where
  "nonneg (Fin q) = (0 \<le> q)"
| "nonneg PosInf = True"
| "nonneg NaN = False"
| "nonneg NegInf = False"

fun positive :: "jsnum \<Rightarrow> bool" where
  "positive (Fin q) = (0 < q)"
| "positive PosInf = True"
| "positive NaN = False"
| "positive NegInf = False"

definition participating :: "rmatch \<Rightarrow> jsstring list" where
  \<comment> \<open>the texts of the capture groups that took part in the match, in order\<close>
  "participating r = concat (map (\<lambda>v. case v of None \<Rightarrow> [] | Some s \<Rightarrow> [s]) (captures r))"

definition field_at :: "jsstring list \<Rightarrow> nat \<Rightarrow> jsstring" where
  \<comment> \<open>the \<open>i\<close>-th text, the empty string where there is none\<close>
  "field_at cs i = (if i < length cs then cs ! i else [])"

definition nan_to_zero :: "jsnum \<Rightarrow> jsnum" where
  "nan_to_zero n = (if n = NaN then Fin 0 else n)"

subsection \<open>Sample requests\<close>

definition bs :: jsstring where
  \<comment> \<open>the backslash of a pattern string\<close>
  "bs = [92]"

definition request :: "template \<Rightarrow> jsstring \<Rightarrow> body option" where
  \<comment> \<open>the body \<^verbatim>\<open>{ template: tpl, text: s }\<close>\<close>
  "request tpl s = Some \<lparr>template = Some tpl, body_text = Some s, own = no_patterns\<rparr>"

text \<open>The end-to-end scenario of the specification (section 8, property 7): the text
  five lines of text, the last one \<^verbatim>\<open>Total: R130.00\<close> with the rupee sign U+20B9
  (the code unit 8377) where \<^verbatim>\<open>R\<close> stands, and the four patterns \<^verbatim>\<open>^(.+)$\<close>,
  \<^verbatim>\<open>Date: (\S+)\<close>, \<^verbatim>\<open>Total:\s*[R]?([0-9,\.]+)\<close> and
  \<^verbatim>\<open>(\w+ \w)\s+(\d+)\s+(\w+)\s+([0-9\.]+)\<close>.\<close>

definition receipt_text :: jsstring where
  "receipt_text =
     ascii ''Acme Store'' @ 10 # ascii ''Date: 2024-01-15'' @ 10 # ascii ''Item A 2 pcs 50.00''
       @ 10 # ascii ''Item B 1 pcs 30.00'' @ 10 # ascii ''Total: '' @ 8377 # ascii ''130.00''"

definition receipt_template :: template where
  "receipt_template =
     \<lparr>vendorRegex = Some (ascii ''^(.+)$''),
      dateRegex = Some (ascii ''Date: ('' @ bs @ ascii ''S+)''),
      totalRegex =
        Some (ascii ''Total:'' @ bs @ ascii ''s*['' @ 8377 # ascii '']?([0-9,'' @ bs @ ascii ''.]+)''),
      subtotalRegex = None,
      itemsRegex =
        Some (ascii ''('' @ bs @ ascii ''w+ '' @ bs @ ascii ''w)'' @ bs @ ascii ''s+('' @ bs
              @ ascii ''d+)'' @ bs @ ascii ''s+('' @ bs @ ascii ''w+)'' @ bs
              @ ascii ''s+([0-9'' @ bs @ ascii ''.]+)'')\<rparr>"

text \<open>A template whose total pattern \<^verbatim>\<open>(\<close> does not compile, beside a vendor and a
  date pattern that do.\<close>

definition broken_total :: template where
  "broken_total =
     \<lparr>vendorRegex = Some (ascii ''^(.+)$''),
      dateRegex = Some (ascii ''Date: ('' @ bs @ ascii ''S+)''),
      totalRegex = Some (ascii ''(''),
      subtotalRegex = None,
      itemsRegex = None\<rparr>"

text \<open>A match of \<^verbatim>\<open>(\d+) (?<unit>\w+)\<close> in \<^verbatim>\<open>3 kg\<close>, and one of four positional
  groups whose quantity is written with a thousands separator.\<close>

definition unit_only :: rmatch where
  "unit_only =
     \<lparr>whole = ascii ''3 kg'', captures = [Some (ascii ''3''), Some (ascii ''kg'')],
      groups = Some [(ascii ''unit'', Some (ascii ''kg''))]\<rparr>"

definition bulk_rice :: rmatch where
  "bulk_rice =
     \<lparr>whole = ascii ''Rice 1,000 kg 1,250.50'',
      captures = [Some (ascii ''Rice''), Some (ascii ''1,000''), Some (ascii ''kg''),
                  Some (ascii ''1,250.50'')],
      groups = None\<rparr>"


text \<open>A template whose total pattern is \<^verbatim>\<open>Total: ([0-9.]+)\<close>, one whose vendor pattern is
  \<^verbatim>\<open>(\s*)Acme\<close>, and the items pattern \<^verbatim>\<open>(\d+) (?<unit>\w+)\<close>.\<close>

definition plain_total :: template where
  "plain_total = no_patterns\<lparr>totalRegex := Some (ascii ''Total: ([0-9.]+)'')\<rparr>"

definition padded_vendor :: template where
  "padded_vendor = no_patterns\<lparr>vendorRegex := Some (ascii ''('' @ bs @ ascii ''s*)Acme'')\<rparr>"

definition unit_pattern :: jsstring where
  "unit_pattern = ascii ''('' @ bs @ ascii ''d+) (?<unit>'' @ bs @ ascii ''w+)''"

text \<open>A match that exposes the named captures name, qty and price beside a first
  positional group of its own.\<close>

definition named_rice :: rmatch where
  "named_rice =
     \<lparr>whole = ascii ''#7 Rice x2 @ 80'',
      captures = [Some (ascii ''7''), Some (ascii ''Rice''), Some (ascii ''2''), Some (ascii ''80'')],
      groups = Some [(ascii ''name'', Some (ascii ''Rice'')), (ascii ''qty'', Some (ascii ''2'')),
                     (ascii ''price'', Some (ascii ''80''))]\<rparr>"


section \<open>Auxiliary facts\<close>

subsection \<open>Numbers, strings and the record\<close>

lemma raw_assemble: "raw (assemble L s tpl) = s"
  by (simp add: assemble_def Let_def)

lemma trim_Nil: "trim [] = []"
  by (simp add: trim_def)

lemma Number_Nil: "Number [] = Fin 0"
  by (simp add: Number_def trim_Nil)

lemma pow2_pos: "0 < pow2 k"
  by (simp add: pow2_def)

lemma round_div_nonneg: "0 \<le> x \<Longrightarrow> 0 < y \<Longrightarrow> 0 \<le> round_div x y"
  by (simp add: round_div_def Let_def pos_imp_zdiv_nonneg_iff)

lemma to_double_nonneg:
  assumes "0 \<le> a" "0 < b"
  shows "nonneg (to_double a b)"
proof -
  have p: "\<And>k. 0 < b * pow2 k" using assms pow2_pos by simp
  have q: "\<And>k. 0 \<le> a * pow2 k" using assms pow2_pos [THEN less_imp_le] by simp
  have n1: "\<And>k. 0 \<le> round_div a (b * pow2 k)"
    using assms p by (intro round_div_nonneg) auto
  have n2: "\<And>k. 0 \<le> round_div (a * pow2 k) b"
    using assms q by (intro round_div_nonneg) auto
  have f: "\<And>n k. 0 \<le> n \<Longrightarrow> 0 \<le> Fract n (pow2 k)"
    using pow2_pos by (simp add: zero_le_Fract_iff)
  have g: "\<And>n k. 0 \<le> n \<Longrightarrow> (0::rat) \<le> of_int (n * pow2 k)"
    using pow2_pos [THEN less_imp_le] by simp
  show ?thesis
    unfolding to_double_def Let_def
    using n1 n2 f g by (auto simp del: of_int_mult)
qed

lemma radix_literal_shape: "radix_literal b s = NaN \<or> nonneg (radix_literal b s)"
  by (simp add: radix_literal_def to_double_nonneg)

lemma unsigned_decimal_shape: "unsigned_decimal s = NaN \<or> nonneg (unsigned_decimal s)"
  by (auto simp add: unsigned_decimal_def Let_def to_double_nonneg split: option.splits)

lemma set_trim: "set (trim s) \<subseteq> set s"
proof -
  have "set (dropWhile is_white_space (rev (dropWhile is_white_space s)))
          \<subseteq> set (rev (dropWhile is_white_space s))"
    by (rule set_dropWhileD [THEN subsetI])
  also have "\<dots> \<subseteq> set s"
    using set_dropWhileD by fastforce
  finally show ?thesis by (simp add: trim_def)
qed

text \<open>A string without a minus sign converts to not-a-number or to a number that is
  not negative.\<close>

lemma Number_shape:
  assumes "45 \<notin> set s"
  shows "Number s = NaN \<or> nonneg (Number s)"
proof -
  have "hd (trim s) \<noteq> 45" if "trim s \<noteq> []"
  proof
    assume "hd (trim s) = 45"
    with hd_in_set [OF that] have "45 \<in> set (trim s)" by simp
    with set_trim [of s] assms show False by blast
  qed
  then show ?thesis
    using radix_literal_shape unsigned_decimal_shape
    by (auto simp add: Number_def Let_def)
qed

lemma strip_number_filter: "strip_number s = filter (\<lambda>c. is_digit c \<or> c = 46) s"
  unfolding strip_number_def filter_filter
  by (rule filter_cong) (auto simp add: is_digit_def)

lemma minus_not_in_strip_number: "45 \<notin> set (strip_number s)"
  by (auto simp add: strip_number_def is_digit_def)

lemma or_null_positive:
  assumes "n = NaN \<or> nonneg n" "or_null n = Some k"
  shows "positive k"
  using assms by (cases n) (auto simp add: or_null_def truthy_num_def split: if_splits)

lemma or_zero_nonneg:
  assumes "n = NaN \<or> nonneg n"
  shows "nonneg (or_zero n)"
  using assms by (cases n) (auto simp add: or_zero_def truthy_num_def)

lemma amount_of_positive: "amount_of r = Some k \<Longrightarrow> positive k"
  unfolding amount_of_def
  by (rule or_null_positive [OF Number_shape [OF minus_not_in_strip_number]])

lemma price_nonneg: "nonneg (price (item_of r))"
  by (simp add: item_of_def named_item_def positional_item_def Let_def
      or_zero_nonneg [OF Number_shape [OF minus_not_in_strip_number]])

lemma or_null_alt: "or_null n = (if n = NaN \<or> n = Fin 0 then None else Some n)"
  by (simp add: or_null_def truthy_num_def)

lemma or_zero_alt: "or_zero n = nan_to_zero n"
  by (simp add: or_zero_def truthy_num_def nan_to_zero_def)

lemma Number_or0_alt: "Number_or0 v = Number (or_str v [])"
  by (cases v) (simp_all add: Number_or0_def truthy_def or_str_def Number_Nil)

lemma filter_defined:
  "filter (\<lambda>v. v \<noteq> None) vs
     = map Some (concat (map (\<lambda>v. case v of None \<Rightarrow> [] | Some s \<Rightarrow> [s]) vs))"
  by (induction vs) (auto split: option.splits)

lemma or_str_elem: "or_str (elem (map Some cs) i) [] = field_at cs i"
  by (simp add: elem_def field_at_def or_str_def)


subsection \<open>The bounds of the matcher are not reached\<close>

text \<open>
  A pattern never gives back input it has read, so a quantified term ends within the
  depth \<open>mn + length (rest x) + 1\<close> and the loop of \<^verbatim>\<open>matchAll\<close> within
  \<open>length text + 2\<close> rounds: with any larger bound the result is the same.
\<close>

lemma rest_reset: "rest (reset ids x) = rest x"
  by (simp add: reset_def)

lemma rep_shorter:
  assumes step: "\<And>x y. y \<in> set (step x) \<Longrightarrow> length (rest y) \<le> length (rest x)"
  shows "y \<in> set (rep n step ids mn mx g x) \<Longrightarrow> length (rest y) \<le> length (rest x)"
proof (induction n arbitrary: x mn mx y)
  case 0
  then show ?case by simp
next
  case (Suc n)
  show ?case
  proof (cases "mx = Some 0")
    case True
    with Suc.prems show ?thesis by simp
  next
    case False
    from Suc.prems False
    consider "y = x"
      | z where "z \<in> set (step (reset ids x))"
          "y \<in> set (rep n step ids (mn - 1) (map_option (\<lambda>k. k - 1) mx) g z)"
      by (auto simp add: Let_def split: if_splits)
    then show ?thesis
    proof cases
      case 1
      then show ?thesis by simp
    next
      case 2
      from Suc.IH [OF 2(2)] step [OF 2(1)] show ?thesis
        by (simp add: rest_reset)
    qed
  qed
qed

lemma run_shorter: "y \<in> set (run ic ml da nd x) \<Longrightarrow> length (rest y) \<le> length (rest x)"
proof (induction nd arbitrary: x y)
  case (Seq a b)
  then show ?case by (fastforce dest: order_trans)
next
  case (Repeat mn mx g r)
  from Repeat.prems show ?case
    by (simp only: run.simps) (rule rep_shorter [OF Repeat.IH], assumption+)
next
  case (Atom ivt items)
  then show ?case by (cases "rest x") (auto split: if_splits)
next
  case Dot
  then show ?case by (cases "rest x") (auto split: if_splits)
qed (auto split: list.splits option.splits if_splits)

lemma rep_fuel:
  assumes step: "\<And>x y. y \<in> set (step x) \<Longrightarrow> length (rest y) \<le> length (rest x)"
  shows "mn + length (rest x) < n \<Longrightarrow> mn + length (rest x) < n'
           \<Longrightarrow> rep n step ids mn mx g x = rep n' step ids mn mx g x"
proof (induction n arbitrary: n' x mn mx)
  case 0
  then show ?case by simp
next
  case (Suc n)
  from Suc.prems(2) obtain m where n': "n' = Suc m" by (cases n') auto
  have inner: "(if mn = 0 \<and> length (rest y) = length (rest x) then []
                else rep n step ids (mn - 1) (map_option (\<lambda>k. k - 1) mx) g y)
             = (if mn = 0 \<and> length (rest y) = length (rest x) then []
                else rep m step ids (mn - 1) (map_option (\<lambda>k. k - 1) mx) g y)"
    if y: "y \<in> set (step (reset ids x))" for y
  proof (cases "mn = 0 \<and> length (rest y) = length (rest x)")
    case True
    then show ?thesis by simp
  next
    case False
    from step [OF y] have le: "length (rest y) \<le> length (rest x)" by (simp add: rest_reset)
    with False Suc.prems n' have "mn - 1 + length (rest y) < n" "mn - 1 + length (rest y) < m"
      by auto
    from Suc.IH [OF this]
    have "rep n step ids (mn - 1) (map_option (\<lambda>k. k - 1) mx) g y
            = rep m step ids (mn - 1) (map_option (\<lambda>k. k - 1) mx) g y" .
    then show ?thesis by (simp only:)
  qed
  have "map (\<lambda>y. if mn = 0 \<and> length (rest y) = length (rest x) then []
                  else rep n step ids (mn - 1) (map_option (\<lambda>k. k - 1) mx) g y)
            (step (reset ids x))
        = map (\<lambda>y. if mn = 0 \<and> length (rest y) = length (rest x) then []
                  else rep m step ids (mn - 1) (map_option (\<lambda>k. k - 1) mx) g y)
            (step (reset ids x))"
    by (rule map_cong [OF refl]) (rule inner)
  then show ?case
    unfolding n' rep.simps Let_def by (simp only:)
qed


lemma repeat_any_fuel:
  assumes "mn + length (rest x) < n"
  shows "run ic ml da (Repeat mn mx g r) x = rep n (run ic ml da r) (group_ids r) mn mx g x"
  unfolding run.simps
  by (rule rep_fuel [OF run_shorter]) (use assms in simp_all)

lemma match_here_shorter: "match_here re p s = Some y \<Longrightarrow> length (rest y) \<le> length s"
proof -
  assume "match_here re p s = Some y"
  then have "y \<in> set (run (ignoreCase re) (multiline re) (dotAll re) (pattern re)
                        (MState s p (replicate (ngroups re) None)))"
    by (auto simp add: match_here_def split: list.splits)
  from run_shorter [OF this] show ?thesis by simp
qed

lemma search_bounds:
  "search re p s = Some (s0, y) \<Longrightarrow> length (rest y) \<le> length s0 \<and> length s0 \<le> length s"
proof (induction s arbitrary: p)
  case Nil
  then show ?case
    by (auto split: option.splits dest: match_here_shorter)
next
  case (Cons c cs)
  show ?case
  proof (cases "match_here re p (c # cs)")
    case None
    with Cons.prems have "search re (Some c) cs = Some (s0, y)" by simp
    from Cons.IH [OF this] show ?thesis by simp
  next
    case (Some z)
    with Cons.prems have "s0 = c # cs" "y = z" by simp_all
    with match_here_shorter [OF Some] show ?thesis by simp
  qed
qed

lemma all_from_fuel:
  "length s < n \<Longrightarrow> length s < n' \<Longrightarrow> all_from n re p s = all_from n' re p s"
proof (induction n arbitrary: n' p s)
  case 0
  then show ?case by simp
next
  case (Suc n)
  from Suc.prems(2) obtain m where n': "n' = Suc m" by (cases n') auto
  show ?case
  proof (cases "search re p s")
    case None
    then show ?thesis by (simp add: n')
  next
    case (Some a)
    obtain s0 y where a: "a = (s0, y)" by (cases a)
    from search_bounds [OF Some [unfolded a]]
    have b: "length (rest y) \<le> length s0" "length s0 \<le> length s" by simp_all
    show ?thesis
    proof (cases "length (rest y) = length s0")
      case True
      show ?thesis
      proof (cases s0)
        case Nil
        with Some a True show ?thesis by (simp add: n')
      next
        case (Cons c cs)
        with b Suc.prems n' have "length cs < n" "length cs < m" by simp_all
        from Suc.IH [OF this] Some a True Cons show ?thesis by (simp add: n')
      qed
    next
      case False
      with b Suc.prems n' have "length (rest y) < n" "length (rest y) < m" by simp_all
      from Suc.IH [OF this] Some a False show ?thesis by (simp add: n')
    qed
  qed
qed

lemma matchAll_any_fuel:
  assumes "length s < n"
  shows "es_matchAll s re = all_from n re None s"
  unfolding es_matchAll_def by (rule all_from_fuel) (use assms in simp_all)

subsection \<open>The scenario\<close>

text \<open>The scenario, run by the kernel's simplifier on the code equations.\<close>

lemma receipt_result:
  "test_template es_library (request receipt_template receipt_text) =
     Json \<lparr>raw = receipt_text,
           vendorName = ascii ''Acme Store'',
           purchaseDate = ascii ''Date: 2024-01-15'',
           subtotal = None,
           total = Some (Fin 130),
           items = [\<lparr>productName = ascii ''Item A'', qty = Fin 2, unit = ascii ''pcs'',
                      price = Fin 50\<rparr>,
                    \<lparr>productName = ascii ''Item B'', qty = Fin 1, unit = ascii ''pcs'',
                      price = Fin 30\<rparr>]\<rparr>"
  by code_simp

section \<open>The claims\<close>

text \<open>
  C1. For a request with non-empty text whose template has a pattern that the library
  refuses to compile, the handler answers with a record, not an error; the record is
  the one the same request gives with that pattern left out of the template, so every
  other field is extracted as if the pattern were absent, and the field of the refused
  pattern holds its default: the empty string for vendorName and purchaseDate, null for
  total and subtotal, no items.
\<close>

theorem invalid_pattern_degrades:
  assumes "s \<noteq> []"
    and "pattern_of tpl f = Some src"
    and "RegExp_new L src (flags_of f) = None"
  shows "test_template L (Some \<lparr>template = Some tpl, body_text = Some s, own = w\<rparr>)
           = Json (assemble L s (without tpl f))
         \<and> test_template L (Some \<lparr>template = Some (without tpl f), body_text = Some s, own = w\<rparr>)
           = Json (assemble L s (without tpl f))
         \<and> at_default (assemble L s (without tpl f)) f"
proof -
  have b: "build L (Some src) (Some (flags_of f)) = None"
    using assms(3) by (simp add: build_def or_str_def flags_of_def ascii_def)
  have same: "assemble L s tpl = assemble L s (without tpl f)"
    using assms(2) b
    by (cases f) (simp_all add: assemble_def pattern_of_def without_def flags_of_def build_def)
  have dflt: "at_default (assemble L s (without tpl f)) f"
    by (cases f) (simp_all add: assemble_def at_default_def without_def build_def)
  show ?thesis
    using assms(1) same dflt
    by (simp add: test_template_def text_of_def tpl_of_def or_str_def)
qed

theorem invalid_pattern_degrades_witness:
  "ascii ''Acme Store'' \<noteq> []
   \<and> pattern_of broken_total Total = Some (ascii ''('')
   \<and> RegExp_new es_library (ascii ''('') (flags_of Total) = None
   \<and> test_template es_library
        (Some \<lparr>template = Some broken_total, body_text = Some (ascii ''Acme Store''), own = no_patterns\<rparr>)
       = Json (assemble es_library (ascii ''Acme Store'') (without broken_total Total))
   \<and> at_default (assemble es_library (ascii ''Acme Store'') (without broken_total Total)) Total
   \<and> vendorName (assemble es_library (ascii ''Acme Store'') (without broken_total Total))
       = ascii ''Acme Store''"
proof -
  have h1: "ascii ''Acme Store'' \<noteq> []" by (simp add: ascii_def)
  have h2: "pattern_of broken_total Total = Some (ascii ''('')"
    by (simp add: pattern_of_def broken_total_def)
  have h3: "RegExp_new es_library (ascii ''('') (flags_of Total) = None" by code_simp
  have v: "vendorName (assemble es_library (ascii ''Acme Store'') (without broken_total Total))
             = ascii ''Acme Store''"
    by code_simp
  from invalid_pattern_degrades [OF h1 h2 h3, of no_patterns] h1 h2 h3 v
  show ?thesis by blast
qed

text \<open>
  C2. For a request with non-empty text and any template, the handler answers with a
  record (it raises nothing), the record has the six fields of its type, and its raw
  field is the text of the request, code unit for code unit. With no pattern at all the
  other five fields hold their defaults.
\<close>

theorem total_and_echo:
  assumes "s \<noteq> []"
  shows "(\<exists>out. test_template L (Some \<lparr>template = t, body_text = Some s, own = w\<rparr>) = Json out
              \<and> raw out = s)
         \<and> test_template L (Some \<lparr>template = Some no_patterns, body_text = Some s, own = w\<rparr>)
             = Json \<lparr>raw = s, vendorName = [], purchaseDate = [], subtotal = None, total = None,
                     items = []\<rparr>"
  using assms
  by (simp add: test_template_def text_of_def tpl_of_def or_str_def raw_assemble)
     (simp add: assemble_def no_patterns_def build_def)

theorem total_and_echo_witness:
  "receipt_text \<noteq> []
   \<and> (\<exists>out. test_template es_library
               (Some \<lparr>template = Some receipt_template, body_text = Some receipt_text, own = no_patterns\<rparr>)
              = Json out \<and> raw out = receipt_text)
   \<and> test_template es_library
        (Some \<lparr>template = Some no_patterns, body_text = Some receipt_text, own = no_patterns\<rparr>)
       = Json \<lparr>raw = receipt_text, vendorName = [], purchaseDate = [], subtotal = None,
               total = None, items = []\<rparr>"
proof -
  have h: "receipt_text \<noteq> []" by (simp add: receipt_text_def)
  from total_and_echo [OF h] h show ?thesis by blast
qed

text \<open>
  C3 (amended). Numeric normalization of a captured string keeps the digits and the
  full stops of the string, in their order (every other character is stripped, the
  commas in a second pass), and converts what is left with \<^verbatim>\<open>Number\<close>. It yields 1234.5
  for the string \<^verbatim>\<open>R1,234.50\<close> (\<^verbatim>\<open>R\<close> the rupee sign) and null for \<^verbatim>\<open>abc\<close>. For
  \<^verbatim>\<open>Rs. 2,000\<close> the full stop of \<^verbatim>\<open>Rs.\<close> is kept, the string left is \<^verbatim>\<open>.2000\<close>, and the
  result is the number written 0.2.
\<close>

theorem number_normalization:
  "strip_number s = filter (\<lambda>c. is_digit c \<or> c = 46) s
   \<and> or_null (Number (strip_number (8377 # ascii ''1,234.50''))) = Some (Fin (2469 / 2))
   \<and> strip_number (ascii ''Rs. 2,000'') = ascii ''.2000''
   \<and> or_null (Number (strip_number (ascii ''Rs. 2,000''))) = Some (Number (ascii ''0.2''))
   \<and> Number (ascii ''0.2'') = Fin (3602879701896397 / 18014398509481984)
   \<and> or_null (Number (strip_number (ascii ''abc''))) = None"
proof -
  have a: "or_null (Number (strip_number (8377 # ascii ''1,234.50''))) = Some (Fin (2469 / 2))"
    by code_simp
  have b: "strip_number (ascii ''Rs. 2,000'') = ascii ''.2000''"
    by code_simp
  have c: "or_null (Number (strip_number (ascii ''Rs. 2,000''))) = Some (Number (ascii ''0.2''))"
    by code_simp
  have d: "Number (ascii ''0.2'') = Fin (3602879701896397 / 18014398509481984)"
    by code_simp
  have e: "or_null (Number (strip_number (ascii ''abc''))) = None"
    by code_simp
  show ?thesis
    using strip_number_filter a b c d e by blast
qed

text \<open>The claim as stated fails at \<^verbatim>\<open>Rs. 2,000\<close>: the result is not 2000.\<close>

theorem rs_2000_counterexample:
  "or_null (Number (strip_number (ascii ''Rs. 2,000''))) \<noteq> Some (Fin 2000)"
  by code_simp

text \<open>
  C4 (amended). On the scenario's text and template the handler yields
  vendorName \<^verbatim>\<open>Acme Store\<close>, total 130 and the two items Item A (2 pcs at 50) and
  Item B (1 pcs at 30) in that order; purchaseDate is the whole match of the date
  pattern, \<^verbatim>\<open>Date: 2024-01-15\<close>, not its capture group.
\<close>

theorem receipt_scenario:
  "test_template es_library (request receipt_template receipt_text) =
     Json \<lparr>raw = receipt_text,
           vendorName = ascii ''Acme Store'',
           purchaseDate = ascii ''Date: 2024-01-15'',
           subtotal = None,
           total = Some (Fin 130),
           items = [\<lparr>productName = ascii ''Item A'', qty = Fin 2, unit = ascii ''pcs'',
                      price = Fin 50\<rparr>,
                    \<lparr>productName = ascii ''Item B'', qty = Fin 1, unit = ascii ''pcs'',
                      price = Fin 30\<rparr>]\<rparr>"
  by (rule receipt_result)

theorem receipt_date_counterexample:
  "\<not> (\<exists>out. test_template es_library (request receipt_template receipt_text) = Json out
           \<and> vendorName out = ascii ''Acme Store''
           \<and> purchaseDate out = ascii ''2024-01-15''
           \<and> total out = Some (Fin 130)
           \<and> items out = [\<lparr>productName = ascii ''Item A'', qty = Fin 2, unit = ascii ''pcs'',
                              price = Fin 50\<rparr>,
                            \<lparr>productName = ascii ''Item B'', qty = Fin 1, unit = ascii ''pcs'',
                              price = Fin 30\<rparr>])"
proof -
  have "ascii ''Date: 2024-01-15'' \<noteq> ascii ''2024-01-15''"
    by (simp add: ascii_def)
  then show ?thesis
    by (auto simp add: receipt_result)
qed

text \<open>
  C5 (amended). For total and subtotal: with no compiled pattern, or no match, the
  field is null. On a match the candidate is the first capture group when that group
  took part and is not empty, else the whole match; the candidate is normalized, and
  the field is the resulting number when that is a number other than zero, and null
  when it is not-a-number or zero.
\<close>

theorem amount_rule:
  "amount_of r =
     (let c = (case grp r 1 of None \<Rightarrow> whole r | Some g \<Rightarrow> if g = [] then whole r else g);
          n = Number (strip_number c)
      in if n = NaN \<or> n = Fin 0 then None else Some n)
   \<and> total (assemble L s tpl) =
       (case build L (totalRegex tpl) (Some (ascii ''im'')) of
          None \<Rightarrow> None
        | Some re \<Rightarrow> (case String_match L s re of None \<Rightarrow> None | Some m \<Rightarrow> amount_of m))
   \<and> subtotal (assemble L s tpl) =
       (case build L (subtotalRegex tpl) (Some (ascii ''im'')) of
          None \<Rightarrow> None
        | Some re \<Rightarrow> (case String_match L s re of None \<Rightarrow> None | Some m \<Rightarrow> amount_of m))"
proof -
  have "or_str (or_else (grp r 1) (grp r 0)) []
          = (case grp r 1 of None \<Rightarrow> whole r | Some g \<Rightarrow> if g = [] then whole r else g)"
    by (cases "grp r 1") (auto simp add: or_str_def or_else_def truthy_def grp_def)
  then show ?thesis
    by (simp add: amount_of_def or_null_alt assemble_def Let_def)
qed

text \<open>The claim as stated fails where normalization yields the valid number 0: the
  total of \<^verbatim>\<open>Total: 0.00\<close> under the pattern \<^verbatim>\<open>Total: ([0-9.]+)\<close> is null.\<close>

theorem zero_total_counterexample:
  "Number (strip_number (ascii ''0.00'')) = Fin 0
   \<and> test_template es_library (request plain_total (ascii ''Total: 0.00''))
       = Json \<lparr>raw = ascii ''Total: 0.00'', vendorName = [], purchaseDate = [], subtotal = None,
               total = None, items = []\<rparr>"
  by code_simp

text \<open>
  C6 (amended). In the positional strategy the capture groups that took part in the
  match are read in order as productName, qty, unit, price, a missing or empty one
  giving the empty string or 0. productName is trimmed, unit is taken as it is, price
  goes through numeric normalization, and qty is converted by \<^verbatim>\<open>Number\<close> as it stands,
  without stripping, so that a quantity that is not a numeric literal gives 0.
\<close>

theorem positional_rule:
  assumes "\<not> uses_named r"
  shows "item_of r =
           (let cs = participating r
            in \<lparr>productName = trim (field_at cs 0),
                qty = nan_to_zero (Number (field_at cs 1)),
                unit = field_at cs 2,
                price = nan_to_zero (Number (strip_number (field_at cs 3)))\<rparr>)"
proof -
  have eq: "filter (\<lambda>v. v \<noteq> None) (captures r) = map Some (participating r)"
    unfolding participating_def by (rule filter_defined)
  have "positional_item r =
          \<lparr>productName = trim (field_at (participating r) 0),
           qty = nan_to_zero (Number (field_at (participating r) 1)),
           unit = field_at (participating r) 2,
           price = nan_to_zero (Number (strip_number (field_at (participating r) 3)))\<rparr>"
    unfolding positional_item_def eq Let_def
    by (simp only: or_str_elem or_zero_alt Number_or0_alt)
  then show ?thesis
    using assms by (simp add: item_of_def Let_def)
qed

theorem positional_rule_witness:
  "\<not> uses_named bulk_rice
   \<and> item_of bulk_rice =
       (let cs = participating bulk_rice
        in \<lparr>productName = trim (field_at cs 0),
            qty = nan_to_zero (Number (field_at cs 1)),
            unit = field_at cs 2,
            price = nan_to_zero (Number (strip_number (field_at cs 3)))\<rparr>)
   \<and> item_of bulk_rice =
       \<lparr>productName = ascii ''Rice'', qty = Fin 0, unit = ascii ''kg'', price = Fin (2501 / 2)\<rparr>"
proof -
  have h: "\<not> uses_named bulk_rice" by code_simp
  have v: "item_of bulk_rice =
             \<lparr>productName = ascii ''Rice'', qty = Fin 0, unit = ascii ''kg'', price = Fin (2501 / 2)\<rparr>"
    by code_simp
  from positional_rule [OF h] h v show ?thesis by blast
qed

text \<open>The claim as stated fails for qty: the quantity \<^verbatim>\<open>1,000\<close> is not normalized to
  1000 but read as it stands, which gives 0.\<close>

theorem qty_counterexample:
  "or_zero (Number (strip_number (ascii ''1,000''))) = Fin 1000
   \<and> qty (item_of bulk_rice) = Fin 0"
  by code_simp


text \<open>
  C7 (amended). For every match of the items pattern: the named strategy is used when
  the match exposes name, product, qty or price with a text that is not empty, also
  when positional groups exist, which that strategy does not read; the positional
  strategy is used when it exposes none of name, product, qty, quantity and price in
  that way, in particular when its only named capture is unit.
\<close>

theorem strategy_choice:
  "(truthy (named r ''name'') \<or> truthy (named r ''product'') \<or> truthy (named r ''qty'')
      \<or> truthy (named r ''price'')
      \<longrightarrow> item_of r = named_item r \<and> item_of (r\<lparr>captures := cs\<rparr>) = item_of r)
   \<and> (\<not> truthy (named r ''name'') \<and> \<not> truthy (named r ''product'')
        \<and> \<not> truthy (named r ''qty'') \<and> \<not> truthy (named r ''quantity'')
        \<and> \<not> truthy (named r ''price'')
      \<longrightarrow> item_of r = positional_item r)"
  by (simp add: item_of_def uses_named_def named_item_def named_def)

theorem strategy_choice_witness:
  "truthy (named named_rice ''name'')
   \<and> item_of named_rice = named_item named_rice
   \<and> item_of (named_rice\<lparr>captures := []\<rparr>) = item_of named_rice
   \<and> item_of named_rice =
       \<lparr>productName = ascii ''Rice'', qty = Fin 2, unit = [], price = Fin 80\<rparr>
   \<and> \<not> truthy (named unit_only ''name'') \<and> \<not> truthy (named unit_only ''product'')
   \<and> \<not> truthy (named unit_only ''qty'') \<and> \<not> truthy (named unit_only ''quantity'')
   \<and> \<not> truthy (named unit_only ''price'')
   \<and> item_of unit_only = positional_item unit_only"
proof -
  have h: "truthy (named named_rice ''name'')" by code_simp
  have v: "item_of named_rice =
             \<lparr>productName = ascii ''Rice'', qty = Fin 2, unit = [], price = Fin 80\<rparr>"
    by code_simp
  have n1: "\<not> truthy (named unit_only ''name'')" by code_simp
  have n2: "\<not> truthy (named unit_only ''product'')" by code_simp
  have n3: "\<not> truthy (named unit_only ''qty'')" by code_simp
  have n4: "\<not> truthy (named unit_only ''quantity'')" by code_simp
  have n5: "\<not> truthy (named unit_only ''price'')" by code_simp
  from strategy_choice [of named_rice "[]"] strategy_choice [of unit_only "[]"] h v n1 n2 n3 n4 n5
  show ?thesis by blast
qed

text \<open>The claim as stated fails for a match whose only named capture is unit: the
  items pattern \<^verbatim>\<open>(\d+) (?<unit>\w+)\<close> finds such a match in \<^verbatim>\<open>3 kg\<close>, and the item is
  built from the positional groups, with \<^verbatim>\<open>3\<close> as the product name and no unit, where
  the named strategy would give the unit \<^verbatim>\<open>kg\<close>.\<close>

theorem unit_only_counterexample:
  "map_option (String_matchAll es_library (ascii ''3 kg''))
              (RegExp_new es_library unit_pattern (ascii ''gim'')) = Some [unit_only]
   \<and> item_of unit_only = \<lparr>productName = ascii ''3'', qty = Fin 0, unit = [], price = Fin 0\<rparr>
   \<and> named_item unit_only = \<lparr>productName = [], qty = Fin 0, unit = ascii ''kg'', price = Fin 0\<rparr>"
  by code_simp

text \<open>
  C8 (amended). For the vendor field: with no compiled pattern, or no match, vendorName
  is the empty string. On a match it is the first capture group, trimmed, when that
  group took part and is not empty before trimming, and the whole match, trimmed,
  otherwise. A first capture group of white space only therefore gives the empty
  string.
\<close>

theorem vendor_rule:
  "vendor_of (Some r) =
     (case grp r 1 of None \<Rightarrow> trim (whole r) | Some g \<Rightarrow> if g = [] then trim (whole r) else trim g)
   \<and> vendor_of None = []
   \<and> vendorName (assemble L s tpl) =
       (case build L (vendorRegex tpl) (Some (ascii ''im'')) of
          None \<Rightarrow> []
        | Some re \<Rightarrow> vendor_of (String_match L s re))"
  by (cases "grp r 1")
     (auto simp add: vendor_of_def truthy_def or_str_def grp_def trim_Nil assemble_def Let_def)

text \<open>The claim as stated fails on a first group of white space only: under the vendor
  pattern \<^verbatim>\<open>(\s*)Acme\<close> the text \<^verbatim>\<open>  Acme\<close> is matched as a whole with the group
  holding the two spaces, and vendorName is the empty string, not \<^verbatim>\<open>Acme\<close>.\<close>

theorem blank_group_counterexample:
  "map_option (String_match es_library (ascii ''  Acme''))
              (RegExp_new es_library (ascii ''('' @ bs @ ascii ''s*)Acme'') (ascii ''im''))
     = Some (Some \<lparr>whole = ascii ''  Acme'', captures = [Some (ascii ''  '')], groups = None\<rparr>)
   \<and> trim (ascii ''  Acme'') = ascii ''Acme''
   \<and> test_template es_library (request padded_vendor (ascii ''  Acme''))
       = Json \<lparr>raw = ascii ''  Acme'', vendorName = [], purchaseDate = [], subtotal = None,
               total = None, items = []\<rparr>"
  by code_simp

text \<open>
  C9. A request whose text is the empty string is answered with status 400 and the
  message \<^verbatim>\<open>text required to test template\<close>, as a request without a text or without a
  body is, whatever the template and the pattern library are; and no record the handler
  returns has an empty raw field.
\<close>

theorem empty_text_rejected:
  "test_template L (Some \<lparr>template = t, body_text = Some [], own = w\<rparr>)
     = Error 400 ''text required to test template''
   \<and> test_template L (Some \<lparr>template = t, body_text = None, own = w\<rparr>)
     = Error 400 ''text required to test template''
   \<and> test_template L None = Error 400 ''text required to test template''
   \<and> (\<forall>b out. test_template L b = Json out \<longrightarrow> raw out \<noteq> [])"
  by (auto simp add: test_template_def text_of_def or_str_def raw_assemble split: if_splits)

theorem empty_text_rejected_witness:
  "test_template es_library (request no_patterns (ascii ''Acme''))
     = Json \<lparr>raw = ascii ''Acme'', vendorName = [], purchaseDate = [], subtotal = None,
             total = None, items = []\<rparr>
   \<and> raw \<lparr>raw = ascii ''Acme'', vendorName = [], purchaseDate = [], subtotal = None,
           total = None, items = []\<rparr> \<noteq> []
   \<and> test_template es_library (request no_patterns []) = Error 400 ''text required to test template''"
proof -
  have h: "test_template es_library (request no_patterns (ascii ''Acme''))
             = Json \<lparr>raw = ascii ''Acme'', vendorName = [], purchaseDate = [], subtotal = None,
                     total = None, items = []\<rparr>"
    by code_simp
  have e: "test_template es_library (request no_patterns [])
             = Error 400 ''text required to test template''"
    using empty_text_rejected [of es_library "Some no_patterns" no_patterns]
    by (simp add: request_def)
  from empty_text_rejected [of es_library "Some no_patterns" no_patterns] h e
  show ?thesis by blast
qed

text \<open>
  C10. In every record the handler returns, total and subtotal are null or a number
  greater than zero, and the price of every item is a number that is not negative:
  normalization leaves no minus sign to convert, and a zero or not-a-number result is
  replaced by null (total, subtotal) or by 0 (price).
\<close>

theorem amounts_not_negative:
  assumes "test_template L b = Json out"
  shows "(\<forall>n. total out = Some n \<longrightarrow> positive n)
         \<and> (\<forall>n. subtotal out = Some n \<longrightarrow> positive n)
         \<and> (\<forall>it \<in> set (items out). nonneg (price it))"
proof -
  from assms have out: "out = assemble L (text_of b) (tpl_of b)"
    by (simp add: test_template_def split: if_splits)
  have t: "positive n" if "total out = Some n" for n
    using that unfolding out assemble_def Let_def
    by (auto split: option.splits dest: amount_of_positive)
  have s: "positive n" if "subtotal out = Some n" for n
    using that unfolding out assemble_def Let_def
    by (auto split: option.splits dest: amount_of_positive)
  have i: "nonneg (price it)" if "it \<in> set (items out)" for it
    using that unfolding out assemble_def Let_def
    by (auto split: option.splits simp add: price_nonneg)
  from t s i show ?thesis by blast
qed

theorem amounts_not_negative_witness:
  "test_template es_library (request receipt_template receipt_text) =
     Json \<lparr>raw = receipt_text,
           vendorName = ascii ''Acme Store'',
           purchaseDate = ascii ''Date: 2024-01-15'',
           subtotal = None,
           total = Some (Fin 130),
           items = [\<lparr>productName = ascii ''Item A'', qty = Fin 2, unit = ascii ''pcs'',
                      price = Fin 50\<rparr>,
                    \<lparr>productName = ascii ''Item B'', qty = Fin 1, unit = ascii ''pcs'',
                      price = Fin 30\<rparr>]\<rparr>
   \<and> positive (Fin 130) \<and> nonneg (Fin 50) \<and> nonneg (Fin 30)"
proof -
  from amounts_not_negative [OF receipt_result] have "positive (Fin 130)" by simp
  then show ?thesis using receipt_result by simp
qed


end
